theory Spec2Isabelle
  imports Main "HOL-Library.Char_ord" "HOL-Library.List_Lexorder" "HOL-Library.Sublist"
begin

section \<open>Listing of playbook tasks: lib/ansible/cli/playbook.py\<close>

text \<open>
  The development embeds the listing part of \<^verbatim>\<open>PlaybookCLI.run\<close>, the JSON encoder
  hook \<^verbatim>\<open>CLIEncoder.default\<close>, \<^verbatim>\<open>remove_nulls\<close> and the class
  \<^verbatim>\<open>PlaybookCliJSON\<close>. Python values are a datatype, exceptions are values of
  a sum type, the closure variable \<^verbatim>\<open>all_tags\<close> is passed as state, and every
  \<^verbatim>\<open>for\<close> loop is a recursion over the list it walks.
\<close>

subsection \<open>Python values, JSON documents, exceptions\<close>

text \<open>
  The values the encoder can meet. A dictionary is an association list in insertion order
  with string keys (attribute dictionaries have no other keys). \<open>PObj r\<close> is an
  instance of a class that is not a JSON type: \<open>r = Some v\<close> when it has the attribute
  \<^verbatim>\<open>json_cli_repr\<close>, which returns \<open>v\<close> when called, and \<open>r = None\<close> when it has
  no such attribute. Floats, cyclic object graphs and the interpreter's recursion limit are
  outside the model.
\<close>

datatype pyval =
    PNone
  | PBool bool
  | PInt int
  | PStr string
  | PList "pyval list"
  | PDict "(string \<times> pyval) list"
  | PObj "pyval option"

text \<open>
  The document \<^verbatim>\<open>json.dumps\<close> writes, as a tree: the layout (\<^verbatim>\<open>indent=2\<close>)
  adds white space only and is not modelled.
\<close>

datatype json =
    JNull
  | JBool bool
  | JNum int
  | JStr string
  | JArr "json list"
  | JObj "(string \<times> json) list"

datatype error =
    AnsibleError string
  | TypeError
  | AttributeError

subsection \<open>The encoder: \<^verbatim>\<open>remove_nulls\<close>, \<^verbatim>\<open>CLIEncoder.default\<close>, \<^verbatim>\<open>json.dumps\<close>\<close>

text \<open>
  \<^verbatim>\<open>remove_nulls\<close> returns \<^verbatim>\<open>None\<close> unchanged and otherwise builds
  \<^verbatim>\<open>{k: v for k, v in dict.items() if v is not None}\<close>; a value that is neither
  \<^verbatim>\<open>None\<close> nor a dictionary has no \<^verbatim>\<open>items\<close> and the call raises.
\<close>

fun remove_nulls :: "pyval \<Rightarrow> error + pyval" where
  "remove_nulls PNone = Inr PNone"
| "remove_nulls (PDict kvs) = Inr (PDict (filter (\<lambda>(k, v). v \<noteq> PNone) kvs))"
| "remove_nulls _ = Inl AttributeError"

text \<open>\<^verbatim>\<open>json.JSONEncoder.default\<close> raises \<^verbatim>\<open>TypeError\<close> for every object.\<close>

definition JSONEncoder_default :: "pyval option \<Rightarrow> error + pyval" where
  "JSONEncoder_default obj = Inl TypeError"

text \<open>
  \<^verbatim>\<open>CLIEncoder.default\<close>, on the attribute of the object it is handed: with
  \<^verbatim>\<open>json_cli_repr\<close> the pruned representation, without it the base class is tried
  and its \<^verbatim>\<open>TypeError\<close> is swallowed, so the method falls off its end and returns
  \<^verbatim>\<open>None\<close>.
\<close>

definition CLIEncoder_default :: "pyval option \<Rightarrow> error + pyval" where
  "CLIEncoder_default obj =
     (case obj of
        Some r \<Rightarrow> remove_nulls r
      | None \<Rightarrow>
          (case JSONEncoder_default obj of
             Inl TypeError \<Rightarrow> Inr PNone
           | Inl e \<Rightarrow> Inl e
           | Inr v \<Rightarrow> Inr v))"

lemma size_remove_nulls: "remove_nulls r = Inr v \<Longrightarrow> size v \<le> size r"
proof (cases r)
  case (PDict kvs)
  have "size_list f (filter P xs) \<le> size_list f xs"
    for f :: "(string \<times> pyval) \<Rightarrow> nat" and P xs
    by (induction xs) auto
  then show "remove_nulls r = Inr v \<Longrightarrow> size v \<le> size r"
    using PDict by auto
qed auto

lemma size_CLIEncoder_default:
  "CLIEncoder_default obj = Inr v \<Longrightarrow> size v < size (PObj obj)"
  by (cases obj)
     (auto simp: CLIEncoder_default_def JSONEncoder_default_def dest: size_remove_nulls)

text \<open>
  The encoder of \<^verbatim>\<open>json.dumps(..., cls=CLIEncoder)\<close>: JSON types are written as
  they are, lists and dictionaries element by element from left to right, and any other
  object is replaced by what \<^verbatim>\<open>default\<close> returns, which is encoded in turn. The
  first exception ends the encoding.
\<close>

function encode :: "pyval \<Rightarrow> error + json"
  and encode_list :: "pyval list \<Rightarrow> error + json list"
  and encode_dict :: "(string \<times> pyval) list \<Rightarrow> error + (string \<times> json) list"
where
  "encode PNone = Inr JNull"
| "encode (PBool b) = Inr (JBool b)"
| "encode (PInt i) = Inr (JNum i)"
| "encode (PStr s) = Inr (JStr s)"
| "encode (PList xs) =
     (case encode_list xs of Inl e \<Rightarrow> Inl e | Inr js \<Rightarrow> Inr (JArr js))"
| "encode (PDict kvs) =
     (case encode_dict kvs of Inl e \<Rightarrow> Inl e | Inr js \<Rightarrow> Inr (JObj js))"
| "encode (PObj obj) =
     (case CLIEncoder_default obj of Inl e \<Rightarrow> Inl e | Inr v \<Rightarrow> encode v)"
| "encode_list [] = Inr []"
| "encode_list (x # xs) =
     (case encode x of
        Inl e \<Rightarrow> Inl e
      | Inr j \<Rightarrow> (case encode_list xs of Inl e \<Rightarrow> Inl e | Inr js \<Rightarrow> Inr (j # js)))"
| "encode_dict [] = Inr []"
| "encode_dict ((k, v) # kvs) =
     (case encode v of
        Inl e \<Rightarrow> Inl e
      | Inr j \<Rightarrow> (case encode_dict kvs of Inl e \<Rightarrow> Inl e | Inr js \<Rightarrow> Inr ((k, j) # js)))"
  by pat_completeness auto

termination
  by (relation "measure (\<lambda>x. case x of
         Inl v \<Rightarrow> 2 * size v
       | Inr (Inl xs) \<Rightarrow> 2 * size_list size xs + 1
       | Inr (Inr kvs) \<Rightarrow> 2 * size_list (size_prod (\<lambda>_. 0) size) kvs + 1)")
     (auto dest: size_CLIEncoder_default)

text \<open>
  A document has no null-valued key when no object in it, at any depth, binds a key to
  \<^verbatim>\<open>null\<close>.
\<close>

fun no_null_keys :: "json \<Rightarrow> bool" where
  "no_null_keys (JArr js) = (\<forall>j \<in> set js. no_null_keys j)"
| "no_null_keys (JObj kvs) = (\<forall>kv \<in> set kvs. snd kv \<noteq> JNull \<and> no_null_keys (snd kv))"
| "no_null_keys _ = True"

subsection \<open>The summary classes\<close>

text \<open>
  Modelled from the spec: the classes \<^verbatim>\<open>TaskCliJSON\<close> and \<^verbatim>\<open>PlayCliJSON\<close> are
  instantiated by \<^verbatim>\<open>run\<close> but are not defined in the source file. The spec gives
  their JSON shapes, \<^verbatim>\<open>{"name", "tags", "path"?}\<close> for a task and
  \<^verbatim>\<open>{"hosts", "name", "tags", "tasks"}\<close> for a play, and says that a play summary
  holds the ordered list of its task summaries. Every field may be absent (\<^verbatim>\<open>None\<close>).
  \<^verbatim>\<open>json_cli_repr\<close> returns the fields as a dictionary, as \<^verbatim>\<open>json_repr\<close> of
  \<^verbatim>\<open>PlaybookCliJSON\<close> does.
\<close>

record TaskCliJSON =
  task_summary_name :: "string option"
  task_summary_tags :: "string list option"
  task_summary_path :: "string option"

record PlayCliJSON =
  play_summary_hosts :: "string option"
  play_summary_name :: "string option"
  play_summary_tags :: "string list option"
  play_summary_tasks :: "TaskCliJSON list option"

definition field_str :: "string option \<Rightarrow> pyval" where
  "field_str x = (case x of None \<Rightarrow> PNone | Some s \<Rightarrow> PStr s)"

definition field_strs :: "string list option \<Rightarrow> pyval" where
  "field_strs x = (case x of None \<Rightarrow> PNone | Some ss \<Rightarrow> PList (map PStr ss))"

definition task_json_cli_repr :: "TaskCliJSON \<Rightarrow> pyval" where
  "task_json_cli_repr t =
     PDict [(''name'', field_str (task_summary_name t)),
            (''tags'', field_strs (task_summary_tags t)),
            (''path'', field_str (task_summary_path t))]"

definition task_object :: "TaskCliJSON \<Rightarrow> pyval" where
  "task_object t = PObj (Some (task_json_cli_repr t))"

definition play_json_cli_repr :: "PlayCliJSON \<Rightarrow> pyval" where
  "play_json_cli_repr p =
     PDict [(''hosts'', field_str (play_summary_hosts p)),
            (''name'', field_str (play_summary_name p)),
            (''tags'', field_strs (play_summary_tags p)),
            (''tasks'', (case play_summary_tasks p of
                           None \<Rightarrow> PNone
                         | Some ts \<Rightarrow> PList (map task_object ts)))]"

definition play_object :: "PlayCliJSON \<Rightarrow> pyval" where
  "play_object p = PObj (Some (play_json_cli_repr p))"

definition set_tasks :: "PlayCliJSON \<Rightarrow> TaskCliJSON list \<Rightarrow> PlayCliJSON" where
  "set_tasks self task_list = self\<lparr>play_summary_tasks := Some task_list\<rparr>"

text \<open>
  The class \<^verbatim>\<open>PlaybookCliJSON\<close> of the source. Its second \<^verbatim>\<open>__init__\<close> replaces
  the first, so \<^verbatim>\<open>plays\<close> is \<^verbatim>\<open>None\<close> unless given; the plays are objects.
  \<^verbatim>\<open>json_repr\<close> returns the attribute dictionary itself, in the order the
  attributes were set.
\<close>

record PlaybookCliJSON =
  playbook :: string
  plays :: "pyval list option"
  playbook_dir :: string

definition PlaybookCliJSON_init ::
    "string \<Rightarrow> string \<Rightarrow> pyval list option \<Rightarrow> PlaybookCliJSON" where
  "PlaybookCliJSON_init pb dir ps = \<lparr>playbook = pb, plays = ps, playbook_dir = dir\<rparr>"

definition add_play :: "PlaybookCliJSON \<Rightarrow> pyval \<Rightarrow> PlaybookCliJSON" where
  "add_play self play =
     (case plays self of
        None \<Rightarrow> self\<lparr>plays := Some [play]\<rparr>
      | Some ps \<Rightarrow> self\<lparr>plays := Some (ps @ [play])\<rparr>)"

definition set_plays :: "PlaybookCliJSON \<Rightarrow> pyval list \<Rightarrow> PlaybookCliJSON" where
  "set_plays self play_list = self\<lparr>plays := Some play_list\<rparr>"

definition json_repr :: "PlaybookCliJSON \<Rightarrow> pyval" where
  "json_repr self =
     PDict [(''playbook'', PStr (playbook self)),
            (''plays'', (case plays self of None \<Rightarrow> PNone | Some ps \<Rightarrow> PList ps)),
            (''playbook_dir'', PStr (playbook_dir self))]"

text \<open>\<^verbatim>\<open>json.dumps(playbook_json.json_repr(), indent=2, cls=CLIEncoder)\<close>.\<close>

definition json_dumps :: "PlaybookCliJSON \<Rightarrow> error + json" where
  "json_dumps pb = encode (json_repr pb)"

subsection \<open>Plays, blocks, tasks and the collaborators of \<^verbatim>\<open>run\<close>\<close>

text \<open>
  Modelled from the spec: the classes \<^verbatim>\<open>Task\<close>, \<^verbatim>\<open>Block\<close> and \<^verbatim>\<open>Play\<close> are
  imported by the source file. A task has an optional name, what \<^verbatim>\<open>get_name()\<close>
  and \<^verbatim>\<open>get_path()\<close> return, an action and its tags. A block has its declared tags
  and an ordered list of items, each a task or a nested block. A play has its host
  patterns, name, tags, path and the blocks \<^verbatim>\<open>compile()\<close> returns.
\<close>

record task =
  task_name :: "string option"
  task_get_name :: string
  task_action :: string
  task_tags :: "string list"
  task_get_path :: string

datatype block = Block (block_tags: "string list") (block_items: "item list")
  and item = TaskItem task | BlockItem block

record play =
  play_hosts :: "string list"
  play_name :: string
  play_tags :: "string list"
  play_get_path :: string
  play_compile :: "block list"

text \<open>
  Modelled from the spec: \<^verbatim>\<open>Block.has_tasks\<close> is not in the source file; the spec
  describes it as the test that a block has tasks left after filtering.
\<close>

fun has_tasks :: "block \<Rightarrow> bool" where
  "has_tasks (Block tg its) = (its \<noteq> [])"

text \<open>The options \<^verbatim>\<open>run\<close> reads while listing.\<close>

record options =
  listhosts :: bool
  listtasks :: bool
  listtaskswithpath :: bool
  listtasksjson :: bool
  listtags :: bool

datatype ftype = Regular | Directory | Fifo | OtherFile

text \<open>
  What \<^verbatim>\<open>run\<close> takes from outside the source file, as parameters:
  \<^item> \<open>set_iter\<close>: the order in which the interpreter iterates over a set of strings
    (Python leaves it open; it changes with the hash seed of the process);
  \<^item> \<open>stat_path\<close>: the file system, \<open>None\<close> for a path that does not exist and
    otherwise the kind of file \<^verbatim>\<open>os.stat\<close> finds there;
  \<^item> \<open>str_hosts\<close>: \<^verbatim>\<open>"%s" % play.hosts\<close>, Python's text for a list;
  \<^item> \<open>get_hosts\<close>: the names of the hosts \<^verbatim>\<open>inventory.get_hosts\<close> returns;
  \<^item> \<open>filter_tagged_tasks\<close>: \<^verbatim>\<open>block.filter_tagged_tasks(play_context, all_vars)\<close>
    for the play at hand;
  \<^item> \<open>realpath_dirname\<close>: \<^verbatim>\<open>os.path.realpath(os.path.dirname(p))\<close>;
  \<^item> \<open>new_TaskCliJSON\<close>, \<open>new_PlayCliJSON\<close>: the constructors of the summary classes.
\<close>

record env =
  set_iter :: "string set \<Rightarrow> string list"
  stat_path :: "string \<Rightarrow> ftype option"
  str_hosts :: "string list \<Rightarrow> string"
  get_hosts :: "string list \<Rightarrow> string list"
  filter_tagged_tasks :: "play \<Rightarrow> block \<Rightarrow> block"
  realpath_dirname :: "string \<Rightarrow> string"
  new_TaskCliJSON :: "task \<Rightarrow> TaskCliJSON"
  new_PlayCliJSON :: "play \<Rightarrow> PlayCliJSON"

subsection \<open>Text formatting\<close>

definition TAB :: string where
  "TAB = [CHR 0x09]"

definition NL :: string where
  "NL = [CHR 0x0A]"

text \<open>\<^verbatim>\<open>sep.join(xs)\<close>.\<close>

fun join :: "string \<Rightarrow> string list \<Rightarrow> string" where
  "join sep [] = []"
| "join sep [x] = x"
| "join sep (x # y # ys) = x @ sep @ join sep (y # ys)"

text \<open>\<^verbatim>\<open>"%d" % n\<close> for a number that is not negative.\<close>

definition digit :: "nat \<Rightarrow> char" where
  "digit d = ''0123456789'' ! d"

function show_nat :: "nat \<Rightarrow> string" where
  "show_nat n = (if n < 10 then [digit n] else show_nat (n div 10) @ [digit (n mod 10)])"
  by pat_completeness auto

termination
  by (relation "measure id") auto

text \<open>The truth value of \<^verbatim>\<open>task.name\<close>: false for \<^verbatim>\<open>None\<close> and for the empty string.\<close>

definition truthy :: "string option \<Rightarrow> bool" where
  "truthy s = (s \<noteq> None \<and> s \<noteq> Some [])"

subsection \<open>The traversal: \<^verbatim>\<open>_process_block\<close>\<close>

text \<open>\<^verbatim>\<open>self.options.listtasks or self.options.listtaskswithpath or self.options.listtasksjson\<close>.\<close>

definition listing :: "options \<Rightarrow> bool" where
  "listing opts = (listtasks opts \<or> listtaskswithpath opts \<or> listtasksjson opts)"

text \<open>
  \<^verbatim>\<open>cur_tags = list(mytags.union(set(task.tags))); cur_tags.sort()\<close>, where
  \<^verbatim>\<open>mytags\<close> is \<^verbatim>\<open>set(play.tags)\<close>.
\<close>

definition cur_tags :: "env \<Rightarrow> string set \<Rightarrow> task \<Rightarrow> string list" where
  "cur_tags c mytags t = sort (set_iter c (mytags \<union> set (task_tags t)))"

text \<open>What the loop body appends to \<^verbatim>\<open>taskmsg\<close> for one task.\<close>

definition task_text :: "env \<Rightarrow> options \<Rightarrow> string set \<Rightarrow> task \<Rightarrow> string" where
  "task_text c opts mytags t =
     ''      '' @ (if truthy (task_name t) then task_get_name t else task_action t)
     @ TAB @ ''TAGS: ['' @ join '', '' (cur_tags c mytags t) @ '']''
     @ (if listtaskswithpath opts then TAB @ ''PATH: ['' @ task_get_path t @ '']'' else [])
     @ NL"

text \<open>
  \<^verbatim>\<open>_process_block(b)\<close> returns \<^verbatim>\<open>(taskmsg, task_list)\<close> and updates the set
  \<^verbatim>\<open>all_tags\<close> of the enclosing scope, which is passed in and returned here. The loop
  over \<^verbatim>\<open>b.block\<close> carries \<^verbatim>\<open>(taskmsg, task_list, all_tags)\<close>.
\<close>

fun process_block ::
    "env \<Rightarrow> options \<Rightarrow> string set \<Rightarrow> block \<Rightarrow> string set \<Rightarrow>
       (string \<times> TaskCliJSON list) \<times> string set"
  and process_items ::
    "env \<Rightarrow> options \<Rightarrow> string set \<Rightarrow> item list \<Rightarrow>
       string \<times> TaskCliJSON list \<times> string set \<Rightarrow>
       string \<times> TaskCliJSON list \<times> string set"
where
  "process_block c opts mytags (Block tg its) all_tags =
     (case process_items c opts mytags its ([], [], all_tags) of
        (taskmsg, task_list, all_tags') \<Rightarrow> ((taskmsg, task_list), all_tags'))"
| "process_items c opts mytags [] st = st"
| "process_items c opts mytags (BlockItem b # its) (taskmsg, task_list, all_tags) =
     (case process_block c opts mytags b all_tags of
        ((block_taskmsg, block_task_list), all_tags') \<Rightarrow>
          process_items c opts mytags its
            (taskmsg @ block_taskmsg, task_list @ block_task_list, all_tags'))"
| "process_items c opts mytags (TaskItem t # its) (taskmsg, task_list, all_tags) =
     (if task_action t = ''meta'' then
        process_items c opts mytags its (taskmsg, task_list, all_tags)
      else if listing opts then
        process_items c opts mytags its
          (taskmsg @ task_text c opts mytags t,
           (if listtasksjson opts then task_list @ [new_TaskCliJSON c t] else task_list),
           all_tags \<union> set (task_tags t))
      else
        process_items c opts mytags its (taskmsg, task_list, all_tags \<union> set (task_tags t)))"

subsection \<open>One play\<close>

text \<open>The message for a play, with its tags, path and hosts.\<close>

definition play_msg :: "env \<Rightarrow> options \<Rightarrow> nat \<Rightarrow> play \<Rightarrow> string" where
  "play_msg c opts idx play =
     (let msg = NL @ ''  play #'' @ show_nat (idx + 1) @ '' (''
                 @ join '','' (play_hosts play) @ ''): '' @ play_name play;
          mytags = set (play_tags play);
          msg = msg @ TAB @ ''TAGS: ['' @ join '','' (set_iter c mytags) @ '']'';
          msg = (if listtaskswithpath opts
                 then msg @ TAB @ ''PATH: ['' @ play_get_path play @ '']'' else msg);
          msg = (if listhosts opts then
                   (let playhosts = set (get_hosts c (play_hosts play)) in
                    msg @ NL @ ''    pattern: '' @ str_hosts c (play_hosts play)
                    @ NL @ ''    hosts ('' @ show_nat (card playhosts) @ ''):''
                    @ concat (map (\<lambda>host. NL @ ''      '' @ host) (set_iter c playhosts)))
                 else msg)
      in msg)"

text \<open>
  The loop over \<^verbatim>\<open>play.compile()\<close>: each block is filtered, skipped when it has no
  tasks, and traversed otherwise.
\<close>

fun play_blocks ::
    "env \<Rightarrow> options \<Rightarrow> play \<Rightarrow> string set \<Rightarrow> block list \<Rightarrow>
       string \<times> TaskCliJSON list \<times> string set \<Rightarrow>
       string \<times> TaskCliJSON list \<times> string set"
where
  "play_blocks c opts play mytags [] st = st"
| "play_blocks c opts play mytags (block # blocks) (taskmsg, task_list, all_tags) =
     (let block' = filter_tagged_tasks c play block in
      if \<not> has_tasks block' then
        play_blocks c opts play mytags blocks (taskmsg, task_list, all_tags)
      else
        (case process_block c opts mytags block' all_tags of
           ((block_taskmsg, block_task_list), all_tags') \<Rightarrow>
             play_blocks c opts play mytags blocks
               (taskmsg @ block_taskmsg, task_list @ block_task_list, all_tags')))"

text \<open>
  The body of the loop over the plays of a playbook: the texts it displays, in order, and
  the play summary.
\<close>

definition list_play :: "env \<Rightarrow> options \<Rightarrow> nat \<Rightarrow> play \<Rightarrow> string list \<times> PlayCliJSON" where
  "list_play c opts idx play =
     (let curr_play = new_PlayCliJSON c play;
          msg = play_msg c opts idx play;
          mytags = set (play_tags play);
          out = (if \<not> listtasksjson opts then [msg] else [])
      in
        if listtags opts \<or> listtasks opts \<or> listtaskswithpath opts \<or> listtasksjson opts then
          (let taskmsg = (if listing opts then ''    tasks:'' @ NL else []) in
           case play_blocks c opts play mytags (play_compile play) (taskmsg, [], {}) of
             (taskmsg, task_list, all_tags) \<Rightarrow>
               (let taskmsg =
                      (if listtags opts then
                         taskmsg @ ''      TASK TAGS: [''
                         @ join '', '' (sort (set_iter c (mytags \<union> all_tags))) @ '']'' @ NL
                       else taskmsg)
                in if listtasksjson opts then (out, set_tasks curr_play task_list)
                   else (out @ [taskmsg], curr_play)))
        else (out, curr_play))"

subsection \<open>\<^verbatim>\<open>PlaybookCLI.run\<close>\<close>

text \<open>What \<^verbatim>\<open>display.display\<close> is called with: a text, or the JSON document of a playbook.\<close>

datatype displayed = Text string | Json json

text \<open>The loop \<^verbatim>\<open>for idx, play in enumerate(p['plays'])\<close>.\<close>

fun list_plays ::
    "env \<Rightarrow> options \<Rightarrow> nat \<Rightarrow> play list \<Rightarrow> displayed list \<times> PlayCliJSON list \<Rightarrow>
       displayed list \<times> PlayCliJSON list"
where
  "list_plays c opts idx [] st = st"
| "list_plays c opts idx (play # rest) (out, play_list) =
     (case list_play c opts idx play of
        (texts, curr_play) \<Rightarrow>
          list_plays c opts (idx + 1) rest
            (out @ map Text texts,
             (if listtasksjson opts then play_list @ [curr_play] else play_list)))"

text \<open>An entry of the list \<^verbatim>\<open>pbex.run()\<close> returns, and what it returns.\<close>

record playbook_entry =
  entry_playbook :: string
  entry_plays :: "play list"

datatype results = Results "playbook_entry list" | ReturnCode int

text \<open>The body of the loop \<^verbatim>\<open>for p in results\<close>; \<^verbatim>\<open>json.dumps\<close> may raise.\<close>

definition list_playbook ::
    "env \<Rightarrow> options \<Rightarrow> playbook_entry \<Rightarrow> displayed list \<times> (error + unit)" where
  "list_playbook c opts p =
     (let playbook_name = entry_playbook p;
          dir = realpath_dirname c playbook_name;
          playbook_json = PlaybookCliJSON_init playbook_name dir None;
          out = (if \<not> listtasksjson opts
                 then [Text (NL @ ''playbook: '' @ playbook_name)] else [])
      in case list_plays c opts 0 (entry_plays p) (out, []) of
           (out, play_list) \<Rightarrow>
             if listtasksjson opts then
               (case json_dumps (set_plays playbook_json (map play_object play_list)) of
                  Inl e \<Rightarrow> (out, Inl e)
                | Inr doc \<Rightarrow> (out @ [Json doc], Inr ()))
             else (out, Inr ()))"

fun list_playbooks ::
    "env \<Rightarrow> options \<Rightarrow> playbook_entry list \<Rightarrow> displayed list \<Rightarrow> displayed list \<times> (error + unit)"
where
  "list_playbooks c opts [] out = (out, Inr ())"
| "list_playbooks c opts (p # ps) out =
     (case list_playbook c opts p of
        (out', Inl e) \<Rightarrow> (out @ out', Inl e)
      | (out', Inr _) \<Rightarrow> list_playbooks c opts ps (out @ out'))"

text \<open>
  The check that opens \<^verbatim>\<open>run\<close>: \<^verbatim>\<open>os.path.exists\<close>, \<^verbatim>\<open>os.path.isfile\<close> and
  \<^verbatim>\<open>stat.S_ISFIFO(os.stat(playbook).st_mode)\<close> on each argument, in order.
\<close>

definition os_path_exists :: "env \<Rightarrow> string \<Rightarrow> bool" where
  "os_path_exists c p = (stat_path c p \<noteq> None)"

definition os_path_isfile :: "env \<Rightarrow> string \<Rightarrow> bool" where
  "os_path_isfile c p = (stat_path c p = Some Regular)"

definition S_ISFIFO :: "env \<Rightarrow> string \<Rightarrow> bool" where
  "S_ISFIFO c p = (stat_path c p = Some Fifo)"

fun check_playbooks :: "env \<Rightarrow> string list \<Rightarrow> error + unit" where
  "check_playbooks c [] = Inr ()"
| "check_playbooks c (path # rest) =
     (if \<not> os_path_exists c path then
        Inl (AnsibleError (''the playbook: '' @ path @ '' could not be found''))
      else if \<not> (os_path_isfile c path \<or> S_ISFIFO c path) then
        Inl (AnsibleError (''the playbook: '' @ path @ '' does not appear to be a file''))
      else check_playbooks c rest)"

text \<open>
  \<^verbatim>\<open>run\<close>, from the check of the arguments on: what is displayed, and the exception
  raised or the value returned. \<open>res\<close> is what \<^verbatim>\<open>pbex.run()\<close> returns. The prompts
  for passwords, the inventory and the fact cache are not part of the listing and are left
  out.
\<close>

definition run :: "env \<Rightarrow> options \<Rightarrow> string list \<Rightarrow> results \<Rightarrow> displayed list \<times> (error + int)" where
  "run c opts args res =
     (case check_playbooks c args of
        Inl e \<Rightarrow> ([], Inl e)
      | Inr _ \<Rightarrow>
          (case res of
             Results ps \<Rightarrow>
               (case list_playbooks c opts ps [] of
                  (out, Inl e) \<Rightarrow> (out, Inl e)
                | (out, Inr _) \<Rightarrow> (out, Inr 0))
           | ReturnCode r \<Rightarrow> ([], Inr r)))"


subsection \<open>What the claims speak of\<close>

text \<open>
  A control-only task is one whose action is the marker \<^verbatim>\<open>meta\<close>.
\<close>

definition control_only :: "task \<Rightarrow> bool" where
  "control_only t = (task_action t = ''meta'')"

text \<open>
  The depth-first pre-order walk of a block tree: the items of a block from first to last,
  a nested block walked whole before the sibling that follows it. Only tasks are leaves.
\<close>

fun preorder :: "block \<Rightarrow> task list"
  and preorder_items :: "item list \<Rightarrow> task list"
where
  "preorder (Block tg its) = preorder_items its"
| "preorder_items [] = []"
| "preorder_items (TaskItem t # its) = t # preorder_items its"
| "preorder_items (BlockItem b # its) = preorder b @ preorder_items its"

text \<open>The walk restricted to the tasks that are not control-only.\<close>

definition emitted_tasks :: "block \<Rightarrow> task list" where
  "emitted_tasks b = filter (\<lambda>t. \<not> control_only t) (preorder b)"

definition emitted_items :: "item list \<Rightarrow> task list" where
  "emitted_items its = filter (\<lambda>t. \<not> control_only t) (preorder_items its)"

text \<open>
  The text, the summaries and the tags that a sequence of tasks gives: one line per task
  when tasks are listed, one summary per task when JSON is asked for, and the tags of
  all of them.
\<close>

definition emitted_text :: "env \<Rightarrow> options \<Rightarrow> string set \<Rightarrow> task list \<Rightarrow> string" where
  "emitted_text c opts mytags ts =
     (if listing opts then concat (map (task_text c opts mytags) ts) else [])"

definition emitted_summaries :: "env \<Rightarrow> options \<Rightarrow> task list \<Rightarrow> TaskCliJSON list" where
  "emitted_summaries c opts ts =
     (if listtasksjson opts then map (new_TaskCliJSON c) ts else [])"

definition observed_tags :: "task list \<Rightarrow> string set" where
  "observed_tags ts = (\<Union>t \<in> set ts. set (task_tags t))"

text \<open>The tasks of a play: those of its blocks, each filtered, in the order of the blocks.\<close>

definition play_tasks :: "env \<Rightarrow> play \<Rightarrow> block list \<Rightarrow> task list" where
  "play_tasks c play blocks =
     concat (map (\<lambda>b. emitted_tasks (filter_tagged_tasks c play b)) blocks)"

text \<open>A block tree with every control-only task removed, at every depth.\<close>

fun drop_control :: "block \<Rightarrow> block"
  and drop_control_items :: "item list \<Rightarrow> item list"
where
  "drop_control (Block tg its) = Block tg (drop_control_items its)"
| "drop_control_items [] = []"
| "drop_control_items (TaskItem t # its) =
     (if control_only t then drop_control_items its else TaskItem t # drop_control_items its)"
| "drop_control_items (BlockItem b # its) =
     BlockItem (drop_control b) # drop_control_items its"

text \<open>
  The effective tags as the specification words them, for each task that is not
  control-only, in pre-order: the union of the tags of the play, of every block around the
  task, and of the task, without repetition and sorted. \<open>inherited\<close> starts as the tags
  of the play.
\<close>

fun spec_effective_tags :: "string set \<Rightarrow> block \<Rightarrow> string list list"
  and spec_effective_tags_items :: "string set \<Rightarrow> item list \<Rightarrow> string list list"
where
  "spec_effective_tags inherited (Block tg its) =
     spec_effective_tags_items (inherited \<union> set tg) its"
| "spec_effective_tags_items inherited [] = []"
| "spec_effective_tags_items inherited (TaskItem t # its) =
     (if control_only t then spec_effective_tags_items inherited its
      else sorted_list_of_set (inherited \<union> set (task_tags t))
           # spec_effective_tags_items inherited its)"
| "spec_effective_tags_items inherited (BlockItem b # its) =
     spec_effective_tags inherited b @ spec_effective_tags_items inherited its"




text \<open>A list enumerates a set when it holds each element of the set once.\<close>

definition enumerates :: "string list \<Rightarrow> string set \<Rightarrow> bool" where
  "enumerates xs s = (set xs = s \<and> distinct xs)"

text \<open>
  The values on which the encoder leaves no null-valued key: a plain dictionary must have
  no \<^verbatim>\<open>None\<close> value, the dictionary that \<^verbatim>\<open>json_cli_repr\<close> of an object
  returns may have some, and an object needs such a representation.
\<close>

fun prunable :: "pyval \<Rightarrow> bool" where
  "prunable (PList xs) = (\<forall>x \<in> set xs. prunable x)"
| "prunable (PDict kvs) = (\<forall>kv \<in> set kvs. snd kv \<noteq> PNone \<and> prunable (snd kv))"
| "prunable (PObj (Some (PDict kvs))) = (\<forall>kv \<in> set kvs. prunable (snd kv))"
| "prunable (PObj _) = False"
| "prunable _ = True"

text \<open>
  The values in which every \<^verbatim>\<open>json_cli_repr\<close> returns a dictionary or
  \<^verbatim>\<open>None\<close>; objects without \<^verbatim>\<open>json_cli_repr\<close> may stand anywhere.
\<close>

fun projections_ok :: "pyval \<Rightarrow> bool" where
  "projections_ok (PList xs) = (\<forall>x \<in> set xs. projections_ok x)"
| "projections_ok (PDict kvs) = (\<forall>kv \<in> set kvs. projections_ok (snd kv))"
| "projections_ok (PObj None) = True"
| "projections_ok (PObj (Some PNone)) = True"
| "projections_ok (PObj (Some (PDict kvs))) = (\<forall>kv \<in> set kvs. projections_ok (snd kv))"
| "projections_ok (PObj (Some _)) = False"
| "projections_ok _ = True"

subsection \<open>Sample inputs\<close>

definition ex_env :: env where
  "ex_env =
     \<lparr>set_iter = sorted_list_of_set,
      stat_path = (\<lambda>p. if p = ''site.yml'' then Some Regular
                        else if p = ''roles'' then Some Directory else None),
      str_hosts = (\<lambda>hs. ''['' @ join '', '' hs @ '']''),
      get_hosts = (\<lambda>hs. [''web1'', ''web2'']),
      filter_tagged_tasks = (\<lambda>p b. b),
      realpath_dirname = (\<lambda>p. ''/srv''),
      new_TaskCliJSON = (\<lambda>t. \<lparr>task_summary_name = Some (task_get_name t),
                                task_summary_tags = Some (task_tags t),
                                task_summary_path = None\<rparr>),
      new_PlayCliJSON = (\<lambda>p. \<lparr>play_summary_hosts = Some (join '','' (play_hosts p)),
                                play_summary_name = Some (play_name p),
                                play_summary_tags = Some (play_tags p),
                                play_summary_tasks = None\<rparr>)\<rparr>"

text \<open>The same collaborators under an interpreter that walks a set in the opposite order.\<close>

definition ex_env_rev :: env where
  "ex_env_rev = ex_env\<lparr>set_iter := (\<lambda>s. rev (sorted_list_of_set s))\<rparr>"

text \<open>\<^verbatim>\<open>--list-tasks\<close> alone, and \<^verbatim>\<open>--list-tasks-json\<close> alone.\<close>

definition ex_opts :: options where
  "ex_opts = \<lparr>listhosts = False, listtasks = True, listtaskswithpath = False,
              listtasksjson = False, listtags = False\<rparr>"

definition ex_opts_json :: options where
  "ex_opts_json = \<lparr>listhosts = False, listtasks = False, listtaskswithpath = False,
                   listtasksjson = True, listtags = False\<rparr>"

definition ex_task_a :: task where
  "ex_task_a = \<lparr>task_name = Some ''t0'', task_get_name = ''t0'', task_action = ''ping'',
                task_tags = [''a''], task_get_path = ''site.yml:3''\<rparr>"

definition ex_task_b :: task where
  "ex_task_b = \<lparr>task_name = None, task_get_name = ''debug'', task_action = ''debug'',
                task_tags = [], task_get_path = ''site.yml:7''\<rparr>"

definition ex_meta :: task where
  "ex_meta = \<lparr>task_name = None, task_get_name = ''meta'', task_action = ''meta'',
              task_tags = [''z''], task_get_path = ''site.yml:5''\<rparr>"

text \<open>
  A block tagged \<open>b\<close> with a task tagged \<open>a\<close>, a nested block holding a control-only
  task and an untagged task, and an empty nested block.
\<close>

definition ex_block :: block where
  "ex_block =
     Block [''b'']
       [TaskItem ex_task_a,
        BlockItem (Block [] [TaskItem ex_meta, TaskItem ex_task_b]),
        BlockItem (Block [] [])]"

definition ex_play :: play where
  "ex_play = \<lparr>play_hosts = [''all''], play_name = ''first'', play_tags = [''q'', ''p''],
              play_get_path = ''site.yml:1'', play_compile = [ex_block, Block [] []]\<rparr>"

definition ex_results :: results where
  "ex_results = Results [\<lparr>entry_playbook = ''site.yml'', entry_plays = [ex_play]\<rparr>]"

text \<open>A play summary with two task summaries, neither with a path.\<close>

definition ex_play_summary :: PlayCliJSON where
  "ex_play_summary =
     \<lparr>play_summary_hosts = Some ''all'', play_summary_name = Some ''first'',
      play_summary_tags = Some [],
      play_summary_tasks = Some
        [\<lparr>task_summary_name = Some ''t0'', task_summary_tags = Some [],
          task_summary_path = None\<rparr>,
         \<lparr>task_summary_name = Some ''t1'', task_summary_tags = Some [''x''],
          task_summary_path = None\<rparr>]\<rparr>"

section \<open>Properties\<close>

subsection \<open>The traversal as a walk of the tree\<close>

lemma emitted_text_append:
  "emitted_text c opts m (xs @ ys) = emitted_text c opts m xs @ emitted_text c opts m ys"
  by (simp add: emitted_text_def)

lemma emitted_summaries_append:
  "emitted_summaries c opts (xs @ ys) =
     emitted_summaries c opts xs @ emitted_summaries c opts ys"
  by (simp add: emitted_summaries_def)

lemma observed_tags_append:
  "observed_tags (xs @ ys) = observed_tags xs \<union> observed_tags ys"
  by (auto simp: observed_tags_def)

lemma emitted_simps:
  "emitted_tasks (Block tg its) = emitted_items its"
  "emitted_items [] = []"
  "emitted_items (TaskItem t # its) =
     (if control_only t then emitted_items its else t # emitted_items its)"
  "emitted_items (BlockItem b # its) = emitted_tasks b @ emitted_items its"
  by (simp_all add: emitted_tasks_def emitted_items_def)

lemma emitted_items_append:
  "emitted_items (xs @ ys) = emitted_items xs @ emitted_items ys"
proof -
  have "preorder_items (xs @ ys) = preorder_items xs @ preorder_items ys"
  proof (induction xs)
    case (Cons x xs)
    then show ?case by (cases x) simp_all
  qed simp
  then show ?thesis by (simp add: emitted_items_def)
qed

text \<open>
  The loop adds to its three variables what the tasks of the walk give, whatever the
  variables held before.
\<close>

lemma process_traversal:
  "process_block c opts m b a =
     ((emitted_text c opts m (emitted_tasks b), emitted_summaries c opts (emitted_tasks b)),
      a \<union> observed_tags (emitted_tasks b))"
  "process_items c opts m its st =
     (fst st @ emitted_text c opts m (emitted_items its),
      fst (snd st) @ emitted_summaries c opts (emitted_items its),
      snd (snd st) \<union> observed_tags (emitted_items its))"
proof (induction c opts m b a and c opts m its st rule: process_block_process_items.induct)
  case (1 c opts mytags tg its all_tags)
  then show ?case by (simp add: emitted_simps)
next
  case (2 c opts mytags st)
  then show ?case
    by (simp add: emitted_simps emitted_text_def emitted_summaries_def observed_tags_def)
next
  case (3 c opts mytags b its taskmsg task_list all_tags)
  then show ?case
    by (simp add: emitted_simps emitted_text_append emitted_summaries_append
        observed_tags_append Un_assoc)
next
  case (4 c opts mytags t its taskmsg task_list all_tags)
  then show ?case
    by (auto simp: emitted_simps control_only_def emitted_text_def emitted_summaries_def
        observed_tags_def listing_def)
qed

lemma no_tasks_no_leaves: "\<not> has_tasks b \<Longrightarrow> emitted_tasks b = []"
  by (cases b) (simp add: emitted_simps)

lemma play_blocks_traversal:
  "play_blocks c opts play m bs st =
     (fst st @ emitted_text c opts m (play_tasks c play bs),
      fst (snd st) @ emitted_summaries c opts (play_tasks c play bs),
      snd (snd st) \<union> observed_tags (play_tasks c play bs))"
proof (induction c opts play m bs st rule: play_blocks.induct)
  case (1 c opts play mytags st)
  then show ?case
    by (simp add: play_tasks_def emitted_text_def emitted_summaries_def observed_tags_def)
next
  case (2 c opts play mytags block blocks taskmsg task_list all_tags)
  let ?b = "filter_tagged_tasks c play block"
  have split: "play_tasks c play (block # blocks) = emitted_tasks ?b @ play_tasks c play blocks"
    by (simp add: play_tasks_def)
  show ?case
  proof (cases "has_tasks ?b")
    case True
    have pb: "((emitted_text c opts mytags (emitted_tasks ?b),
                emitted_summaries c opts (emitted_tasks ?b)),
               all_tags \<union> observed_tags (emitted_tasks ?b)) =
              process_block c opts mytags ?b all_tags"
      by (simp add: process_traversal(1))
    from True have "\<not> \<not> has_tasks ?b" by simp
    from 2(2)[OF refl this pb refl] True show ?thesis
      by (simp add: Let_def split process_traversal(1) emitted_text_append
          emitted_summaries_append observed_tags_append Un_assoc)
  next
    case False
    then show ?thesis
      using 2(1)[OF refl] by (simp add: Let_def split no_tasks_no_leaves)
  qed
qed

lemma preorder_drop_control:
  "preorder (drop_control b) = filter (\<lambda>t. \<not> control_only t) (preorder b)"
  "preorder_items (drop_control_items its) =
     filter (\<lambda>t. \<not> control_only t) (preorder_items its)"
  by (induction b and its rule: drop_control_drop_control_items.induct) simp_all


subsection \<open>The encoder on summary graphs\<close>

lemma encode_prunable:
  "prunable v \<longrightarrow>
     (\<exists>j. encode v = Inr j \<and> no_null_keys j \<and> (j = JNull \<longleftrightarrow> v = PNone))"
  "(\<forall>x \<in> set xs. prunable x) \<longrightarrow>
     (\<exists>js. encode_list xs = Inr js \<and> (\<forall>j \<in> set js. no_null_keys j))"
  "(\<forall>kv \<in> set kvs. snd kv \<noteq> PNone \<and> prunable (snd kv)) \<longrightarrow>
     (\<exists>js. encode_dict kvs = Inr js \<and>
        (\<forall>kv \<in> set js. snd kv \<noteq> JNull \<and> no_null_keys (snd kv)))"
proof (induction v and xs and kvs rule: encode_encode_list_encode_dict.induct)
  case (7 obj)
  show ?case
  proof (cases obj)
    case None
    then show ?thesis by simp
  next
    case (Some r)
    show ?thesis
    proof (cases r)
      case (PDict kvs)
      have d: "CLIEncoder_default obj = Inr (PDict (filter (\<lambda>(k, v). v \<noteq> PNone) kvs))"
        using Some PDict by (simp add: CLIEncoder_default_def)
      have "prunable (PObj obj) \<Longrightarrow> prunable (PDict (filter (\<lambda>(k, v). v \<noteq> PNone) kvs))"
        using Some PDict by auto
      then show ?thesis
        using 7[OF d] d by auto
    qed (use Some in auto)
  qed
qed (fastforce split: sum.splits)+

lemma prunable_task_object: "prunable (task_object t)"
  by (simp add: task_object_def task_json_cli_repr_def field_str_def field_strs_def
      split: option.splits)

lemma prunable_play_object: "prunable (play_object p)"
  by (simp add: play_object_def play_json_cli_repr_def field_str_def field_strs_def
      prunable_task_object split: option.splits)

lemma encode_list_unknown:
  "encode_list (xs @ PObj None # ys) = encode_list (xs @ PNone # ys)"
  by (induction xs)
     (simp_all add: CLIEncoder_default_def JSONEncoder_default_def split: sum.splits)

lemma encode_dict_unknown:
  "encode_dict (kvs @ (k, PObj None) # kvs') = encode_dict (kvs @ (k, PNone) # kvs')"
  by (induction kvs)
     (auto simp: CLIEncoder_default_def JSONEncoder_default_def split: sum.splits)

lemma remove_nulls_no_TypeError: "remove_nulls r \<noteq> Inl TypeError"
  by (cases r) simp_all

lemma encode_no_TypeError:
  "encode v \<noteq> Inl TypeError"
  "encode_list xs \<noteq> Inl TypeError"
  "encode_dict kvs \<noteq> Inl TypeError"
proof (induction v and xs and kvs rule: encode_encode_list_encode_dict.induct)
  case (7 obj)
  then show ?case
    by (cases obj)
       (auto simp: CLIEncoder_default_def JSONEncoder_default_def remove_nulls_no_TypeError
          split: sum.splits)
qed (auto split: sum.splits)

lemma encode_projections_ok:
  "projections_ok v \<longrightarrow> (\<exists>j. encode v = Inr j)"
  "(\<forall>x \<in> set xs. projections_ok x) \<longrightarrow> (\<exists>js. encode_list xs = Inr js)"
  "(\<forall>kv \<in> set kvs. projections_ok (snd kv)) \<longrightarrow> (\<exists>js. encode_dict kvs = Inr js)"
proof (induction v and xs and kvs rule: encode_encode_list_encode_dict.induct)
  case (7 obj)
  show ?case
  proof (cases obj)
    case None
    then show ?thesis by (simp add: CLIEncoder_default_def JSONEncoder_default_def)
  next
    case (Some r)
    show ?thesis
    proof (cases r)
      case (PDict kvs)
      have d: "CLIEncoder_default obj = Inr (PDict (filter (\<lambda>(k, v). v \<noteq> PNone) kvs))"
        using Some PDict by (simp add: CLIEncoder_default_def)
      have "projections_ok (PObj obj) \<Longrightarrow>
            projections_ok (PDict (filter (\<lambda>(k, v). v \<noteq> PNone) kvs))"
        using Some PDict by auto
      then show ?thesis
        using 7[OF d] d by auto
    next
      case PNone
      then show ?thesis using Some by (simp add: CLIEncoder_default_def)
    qed (use Some in auto)
  qed
qed (fastforce split: sum.splits)+

lemma check_playbooks_fails:
  "path \<in> set args \<Longrightarrow>
   \<not> os_path_exists c path \<or> \<not> (os_path_isfile c path \<or> S_ISFIFO c path) \<Longrightarrow>
   \<exists>msg. check_playbooks c args = Inl (AnsibleError msg)"
  by (induction args) auto

subsection \<open>C1: no null-valued key in the document of a playbook\<close>

text \<open>
  Claim C1. For the summary graph that \<^verbatim>\<open>run\<close> serializes for
  \<^verbatim>\<open>--list-tasks-json\<close> (a \<^verbatim>\<open>PlaybookCliJSON\<close> created with the name and
  directory of the playbook and given its list of play summaries by \<^verbatim>\<open>set_plays\<close>,
  each play summary holding its task summaries) the encoding succeeds and the document has
  no null-valued key at any depth, whichever fields of the play and task summaries are
  \<^verbatim>\<open>None\<close>. \<^verbatim>\<open>remove_nulls\<close> prunes one dictionary only, and the encoder
  applies it, through \<^verbatim>\<open>default\<close>, to the representation of every summary object it
  meets, also inside lists.
\<close>

theorem null_pruning_at_every_level:
  "\<exists>doc. json_dumps (set_plays (PlaybookCliJSON_init name dir None)
                      (map play_object play_list)) = Inr doc
         \<and> no_null_keys doc"
proof -
  have "prunable (json_repr (set_plays (PlaybookCliJSON_init name dir None)
                      (map play_object play_list)))"
    by (simp add: json_repr_def set_plays_def PlaybookCliJSON_init_def prunable_play_object)
  then show ?thesis
    using encode_prunable(1) by (auto simp: json_dumps_def)
qed

theorem null_pruning_at_every_level_witness:
  "(\<exists>doc. json_dumps (set_plays (PlaybookCliJSON_init ''site.yml'' ''/srv'' None)
                      (map play_object [ex_play_summary])) = Inr doc
         \<and> no_null_keys doc)
   \<and> json_dumps (set_plays (PlaybookCliJSON_init ''site.yml'' ''/srv'' None)
                      (map play_object [ex_play_summary])) =
     Inr (JObj
      [(''playbook'', JStr ''site.yml''),
       (''plays'',
        JArr
         [JObj
           [(''hosts'', JStr ''all''), (''name'', JStr ''first''),
            (''tags'', JArr []),
            (''tasks'',
             JArr
              [JObj [(''name'', JStr ''t0''), (''tags'', JArr [])],
               JObj [(''name'', JStr ''t1''), (''tags'', JArr [JStr ''x''])]])]]),
       (''playbook_dir'', JStr ''/srv'')])"
proof -
  have a: "\<exists>doc. json_dumps (set_plays (PlaybookCliJSON_init ''site.yml'' ''/srv'' None)
                      (map play_object [ex_play_summary])) = Inr doc
         \<and> no_null_keys doc"
    by (rule null_pruning_at_every_level)
  have b: "json_dumps (set_plays (PlaybookCliJSON_init ''site.yml'' ''/srv'' None)
                      (map play_object [ex_play_summary])) =
     Inr (JObj
      [(''playbook'', JStr ''site.yml''),
       (''plays'',
        JArr
         [JObj
           [(''hosts'', JStr ''all''), (''name'', JStr ''first''),
            (''tags'', JArr []),
            (''tasks'',
             JArr
              [JObj [(''name'', JStr ''t0''), (''tags'', JArr [])],
               JObj [(''name'', JStr ''t1''), (''tags'', JArr [JStr ''x''])]])]]),
       (''playbook_dir'', JStr ''/srv'')])"
    by (simp add: json_dumps_def json_repr_def set_plays_def PlaybookCliJSON_init_def
        play_object_def play_json_cli_repr_def task_object_def task_json_cli_repr_def
        field_str_def field_strs_def ex_play_summary_def CLIEncoder_default_def)
  show ?thesis using a b by (rule conjI)
qed

subsection \<open>C2: the line of a play follows the order of a set\<close>

text \<open>
  Claim C2, at a play with the tags \<open>q\<close> and \<open>p\<close> listed with \<^verbatim>\<open>--list-tasks\<close>.
  The tags of the play are joined in the order in which the interpreter walks the set
  \<^verbatim>\<open>set(play.tags)\<close>, unsorted. Two interpreters that walk the set in different
  orders, each an enumeration of the set, write different lines for the same play and
  options.
\<close>

theorem play_tags_line_follows_set_order:
  "enumerates (set_iter ex_env (set (play_tags ex_play))) (set (play_tags ex_play))
   \<and> enumerates (set_iter ex_env_rev (set (play_tags ex_play))) (set (play_tags ex_play))
   \<and> play_msg ex_env ex_opts 0 ex_play =
       NL @ ''  play #1 (all): first'' @ TAB @ ''TAGS: [p,q]''
   \<and> play_msg ex_env_rev ex_opts 0 ex_play =
       NL @ ''  play #1 (all): first'' @ TAB @ ''TAGS: [q,p]''"
  by code_simp

subsection \<open>C3: the tags displayed for a task\<close>




subsection \<open>C4: control-only tasks leave no trace\<close>

text \<open>
  Claim C4. For every block tree, the text, the summaries and the set of tags that the
  traversal returns are those it returns for the tree with every control-only task
  removed; the tags added to the set are the tags of the tasks of the walk that are not
  control-only; and the loop over the blocks of a play returns the same when the
  control-only tasks are removed from every filtered block.
\<close>

theorem control_only_tasks_ignored:
  "process_block c opts mytags b all_tags =
     process_block c opts mytags (drop_control b) all_tags
   \<and> preorder (drop_control b) = filter (\<lambda>t. \<not> control_only t) (preorder b)
   \<and> snd (process_block c opts mytags b all_tags) =
       all_tags \<union> observed_tags (filter (\<lambda>t. \<not> control_only t) (preorder b))
   \<and> play_blocks c opts play mytags blocks st =
       play_blocks (c\<lparr>filter_tagged_tasks := \<lambda>p x. drop_control (filter_tagged_tasks c p x)\<rparr>)
         opts play mytags blocks st"
proof -
  let ?c = "c\<lparr>filter_tagged_tasks := \<lambda>p x. drop_control (filter_tagged_tasks c p x)\<rparr>"
  have t: "play_tasks ?c play blocks = play_tasks c play blocks"
    by (simp add: play_tasks_def emitted_tasks_def preorder_drop_control)
  have "task_text ?c opts mytags = task_text c opts mytags"
    by (rule ext) (simp add: task_text_def cur_tags_def)
  then have "emitted_text ?c opts mytags ts = emitted_text c opts mytags ts"
    and "emitted_summaries ?c opts ts = emitted_summaries c opts ts" for ts
    by (simp_all add: emitted_text_def emitted_summaries_def)
  then have "play_blocks c opts play mytags blocks st = play_blocks ?c opts play mytags blocks st"
    by (simp add: play_blocks_traversal t)
  then show ?thesis
    by (simp add: process_traversal(1) emitted_tasks_def preorder_drop_control)
qed

theorem control_only_tasks_ignored_witness:
  "process_block ex_env ex_opts {} ex_block {} =
     process_block ex_env ex_opts {} (drop_control ex_block) {}
   \<and> map task_action (preorder ex_block) = [''ping'', ''meta'', ''debug'']
   \<and> map task_action (preorder (drop_control ex_block)) = [''ping'', ''debug'']
   \<and> snd (process_block ex_env ex_opts {} ex_block {}) = {''a''}"
proof -
  have a: "process_block ex_env ex_opts {} ex_block {} =
     process_block ex_env ex_opts {} (drop_control ex_block) {}"
    using control_only_tasks_ignored[of ex_env ex_opts "{}" ex_block "{}"]
    by (rule conjunct1)
  have b: "map task_action (preorder ex_block) = [''ping'', ''meta'', ''debug'']
   \<and> map task_action (preorder (drop_control ex_block)) = [''ping'', ''debug'']
   \<and> snd (process_block ex_env ex_opts {} ex_block {}) = {''a''}"
    by code_simp
  from a b show ?thesis by (rule conjI)
qed

subsection \<open>C5: the tasks come out in depth-first pre-order\<close>

text \<open>
  Claim C5. For every block tree, the text that \<^verbatim>\<open>_process_block\<close> returns is the
  lines of the tasks of the depth-first pre-order walk that are not control-only, in that
  order, and the task list it returns holds the summaries of the same tasks in the same
  order (the lines when tasks are listed, the summaries when JSON is asked for). The loop
  over the blocks of a play appends the same for the filtered blocks, in their order.
\<close>

theorem traversal_is_preorder:
  "fst (process_block c opts mytags b all_tags) =
     (emitted_text c opts mytags (emitted_tasks b), emitted_summaries c opts (emitted_tasks b))
   \<and> play_blocks c opts play mytags blocks (taskmsg, task_list, all_tags) =
     (taskmsg @ emitted_text c opts mytags (play_tasks c play blocks),
      task_list @ emitted_summaries c opts (play_tasks c play blocks),
      all_tags \<union> observed_tags (play_tasks c play blocks))"
  by (simp add: process_traversal(1) play_blocks_traversal)

theorem traversal_is_preorder_witness:
  "fst (process_block ex_env ex_opts_json {} ex_block {}) =
     (emitted_text ex_env ex_opts_json {} (emitted_tasks ex_block),
      emitted_summaries ex_env ex_opts_json (emitted_tasks ex_block))
   \<and> map task_action (emitted_tasks ex_block) = [''ping'', ''debug'']
   \<and> map task_summary_name (snd (fst (process_block ex_env ex_opts_json {} ex_block {}))) =
       [Some ''t0'', Some ''debug'']
   \<and> fst (fst (process_block ex_env ex_opts_json {} ex_block {})) =
       ''      t0'' @ TAB @ ''TAGS: [a]'' @ NL @ ''      debug'' @ TAB @ ''TAGS: []'' @ NL"
proof -
  have a: "fst (process_block ex_env ex_opts_json {} ex_block {}) =
     (emitted_text ex_env ex_opts_json {} (emitted_tasks ex_block),
      emitted_summaries ex_env ex_opts_json (emitted_tasks ex_block))"
    using traversal_is_preorder[of ex_env ex_opts_json "{}" ex_block "{}"]
    by (rule conjunct1)
  have b: "map task_action (emitted_tasks ex_block) = [''ping'', ''debug'']
   \<and> map task_summary_name (snd (fst (process_block ex_env ex_opts_json {} ex_block {}))) =
       [Some ''t0'', Some ''debug'']
   \<and> fst (fst (process_block ex_env ex_opts_json {} ex_block {})) =
       ''      t0'' @ TAB @ ''TAGS: [a]'' @ NL @ ''      debug'' @ TAB @ ''TAGS: []'' @ NL"
    by code_simp
  from a b show ?thesis by (rule conjI)
qed

subsection \<open>C6: a block without tasks contributes nothing\<close>

text \<open>
  Claim C6. A block that holds no task at any depth gives the empty text and the empty
  task list and leaves the set of tags as it was; as an item of another block, at any
  position, the traversal of that block returns what it returns without the item; and as
  the filtered form of a block of the play, the loop over the blocks returns what it
  returns without that block.
\<close>

theorem empty_block_contributes_nothing:
  assumes "preorder b = []"
  shows "process_block c opts mytags b all_tags = (([], []), all_tags)
    \<and> process_items c opts mytags (its1 @ BlockItem b # its2) st =
        process_items c opts mytags (its1 @ its2) st
    \<and> (filter_tagged_tasks c play b0 = b \<longrightarrow>
        play_blocks c opts play mytags (bs1 @ b0 # bs2) st =
        play_blocks c opts play mytags (bs1 @ bs2) st)"
proof -
  have e: "emitted_tasks b = []"
    using assms by (simp add: emitted_tasks_def)
  have 1: "process_block c opts mytags b all_tags = (([], []), all_tags)"
    by (simp add: process_traversal(1) e emitted_text_def emitted_summaries_def
        observed_tags_def)
  have "emitted_items (its1 @ BlockItem b # its2) = emitted_items (its1 @ its2)"
    by (simp add: emitted_items_append emitted_simps e)
  then have 2: "process_items c opts mytags (its1 @ BlockItem b # its2) st =
        process_items c opts mytags (its1 @ its2) st"
    by (simp add: process_traversal(2))
  have 3: "play_blocks c opts play mytags (bs1 @ b0 # bs2) st =
        play_blocks c opts play mytags (bs1 @ bs2) st"
    if "filter_tagged_tasks c play b0 = b"
  proof -
    have "play_tasks c play (bs1 @ b0 # bs2) = play_tasks c play (bs1 @ bs2)"
      using that e by (simp add: play_tasks_def)
    then show ?thesis by (simp add: play_blocks_traversal)
  qed
  show ?thesis using 1 2 3 by blast
qed

theorem empty_block_contributes_nothing_witness:
  "preorder (Block [''b''] [BlockItem (Block [] [])]) = []
   \<and> process_block ex_env ex_opts {} (Block [''b''] [BlockItem (Block [] [])]) {} =
       (([], []), {})
   \<and> process_items ex_env ex_opts {}
        ([TaskItem ex_task_a] @ BlockItem (Block [''b''] [BlockItem (Block [] [])])
           # [TaskItem ex_task_b]) ([], [], {}) =
      process_items ex_env ex_opts {} ([TaskItem ex_task_a] @ [TaskItem ex_task_b])
        ([], [], {})
   \<and> play_blocks ex_env ex_opts ex_play {}
        ([ex_block] @ Block [''b''] [BlockItem (Block [] [])] # []) ([], [], {}) =
      play_blocks ex_env ex_opts ex_play {} ([ex_block] @ []) ([], [], {})"
proof -
  have h: "preorder (Block [''b''] [BlockItem (Block [] [])]) = []"
    by simp
  have f: "filter_tagged_tasks ex_env ex_play (Block [''b''] [BlockItem (Block [] [])]) =
      Block [''b''] [BlockItem (Block [] [])]"
    by (simp add: ex_env_def)
  from empty_block_contributes_nothing[OF h, of ex_env ex_opts "{}" "{}"
      "[TaskItem ex_task_a]" "[TaskItem ex_task_b]" "([], [], {})" ex_play
      "Block [''b''] [BlockItem (Block [] [])]" "[ex_block]" "[]"] f
  have "process_block ex_env ex_opts {} (Block [''b''] [BlockItem (Block [] [])]) {} =
       (([], []), {})
   \<and> process_items ex_env ex_opts {}
        ([TaskItem ex_task_a] @ BlockItem (Block [''b''] [BlockItem (Block [] [])])
           # [TaskItem ex_task_b]) ([], [], {}) =
      process_items ex_env ex_opts {} ([TaskItem ex_task_a] @ [TaskItem ex_task_b])
        ([], [], {})
   \<and> play_blocks ex_env ex_opts ex_play {}
        ([ex_block] @ Block [''b''] [BlockItem (Block [] [])] # []) ([], [], {}) =
      play_blocks ex_env ex_opts ex_play {} ([ex_block] @ []) ([], [], {})"
    by blast
  with h show ?thesis by (rule conjI)
qed

subsection \<open>C7: a bad playbook path stops \<^verbatim>\<open>run\<close> before anything is listed\<close>

text \<open>
  Claim C7. When one of the arguments is a path that does not exist, or that is neither a
  regular file nor a FIFO, \<^verbatim>\<open>run\<close> raises \<^verbatim>\<open>AnsibleError\<close> and has displayed
  nothing, whatever the options and whatever the executor would have returned.
\<close>

theorem bad_playbook_path_fails_first:
  assumes "path \<in> set args"
    and "\<not> os_path_exists c path \<or> \<not> (os_path_isfile c path \<or> S_ISFIFO c path)"
  shows "\<exists>msg. run c opts args res = ([], Inl (AnsibleError msg))"
proof -
  obtain msg where "check_playbooks c args = Inl (AnsibleError msg)"
    using check_playbooks_fails[OF assms] by blast
  then show ?thesis by (simp add: run_def)
qed

theorem bad_playbook_path_fails_first_witness:
  "''roles'' \<in> set [''site.yml'', ''roles'']
   \<and> stat_path ex_env ''roles'' = Some Directory
   \<and> (\<exists>msg. run ex_env ex_opts [''site.yml'', ''roles''] ex_results =
         ([], Inl (AnsibleError msg)))
   \<and> run ex_env ex_opts [''site.yml'', ''roles''] ex_results =
       ([], Inl (AnsibleError ''the playbook: roles does not appear to be a file''))
   \<and> run ex_env ex_opts [''site.yml'', ''missing.yml''] ex_results =
       ([], Inl (AnsibleError ''the playbook: missing.yml could not be found''))"
proof -
  have h1: "''roles'' \<in> set [''site.yml'', ''roles'']"
    by simp
  have d: "stat_path ex_env ''roles'' = Some Directory"
    by (simp add: ex_env_def)
  then have h2: "\<not> os_path_exists ex_env ''roles''
       \<or> \<not> (os_path_isfile ex_env ''roles'' \<or> S_ISFIFO ex_env ''roles'')"
    by (simp add: os_path_isfile_def S_ISFIFO_def)
  have c: "\<exists>msg. run ex_env ex_opts [''site.yml'', ''roles''] ex_results =
         ([], Inl (AnsibleError msg))"
    by (rule bad_playbook_path_fails_first[OF h1 h2])
  have v: "run ex_env ex_opts [''site.yml'', ''roles''] ex_results =
       ([], Inl (AnsibleError ''the playbook: roles does not appear to be a file''))
   \<and> run ex_env ex_opts [''site.yml'', ''missing.yml''] ex_results =
       ([], Inl (AnsibleError ''the playbook: missing.yml could not be found''))"
    by code_simp
  from h1 d c v show ?thesis by blast
qed

subsection \<open>C8: task summaries are built for JSON only\<close>

text \<open>
  Claim C8 as stated fails: with \<^verbatim>\<open>--list-tasks\<close> and without
  \<^verbatim>\<open>--list-tasks-json\<close>, the traversal of the sample block, which has two tasks to
  list, returns an empty task list, and the play summary is left without tasks.
\<close>

theorem no_summaries_without_json:
  "listtasks ex_opts \<and> \<not> listtasksjson ex_opts
   \<and> length (emitted_tasks ex_block) = 2
   \<and> snd (fst (process_block ex_env ex_opts (set (play_tags ex_play)) ex_block {})) = []
   \<and> play_summary_tasks (snd (list_play ex_env ex_opts 0 ex_play)) = None"
  by code_simp

text \<open>
  Claim C8, amended. The task list that the traversal of a block returns, and the list the
  loop over the blocks of a play builds from it, hold the summaries of the listed tasks,
  in order, when JSON output is requested, and are empty otherwise. For a play, with JSON
  the play summary is given that list by \<^verbatim>\<open>set_tasks\<close> and nothing is displayed;
  without JSON the play summary is left as it was constructed, with no tasks, and the
  text displayed is composed in the same traversal from the tasks themselves, not from
  summaries.
\<close>

theorem summaries_only_for_json:
  "snd (fst (process_block c opts mytags b all_tags)) =
     (if listtasksjson opts then map (new_TaskCliJSON c) (emitted_tasks b) else [])
   \<and> fst (snd (play_blocks c opts play mytags blocks (taskmsg, [], all_tags))) =
     (if listtasksjson opts then map (new_TaskCliJSON c) (play_tasks c play blocks) else [])
   \<and> list_play c opts idx play =
     (if listtasksjson opts then
        ([], set_tasks (new_PlayCliJSON c play)
               (map (new_TaskCliJSON c) (play_tasks c play (play_compile play))))
      else
        ([play_msg c opts idx play] @
         (if listtags opts \<or> listtasks opts \<or> listtaskswithpath opts then
            [(if listing opts then ''    tasks:'' @ NL else [])
             @ emitted_text c opts (set (play_tags play))
                 (play_tasks c play (play_compile play))
             @ (if listtags opts then
                  ''      TASK TAGS: [''
                  @ join '', ''
                      (sort (set_iter c
                         (set (play_tags play)
                          \<union> observed_tags (play_tasks c play (play_compile play)))))
                  @ '']'' @ NL
                else [])]
          else []),
         new_PlayCliJSON c play))"
  by (simp add: process_traversal(1) play_blocks_traversal emitted_summaries_def
      list_play_def Let_def listing_def)

theorem summaries_only_for_json_witness:
  "listtasksjson ex_opts_json
   \<and> list_play ex_env ex_opts_json 0 ex_play =
       ([], set_tasks (new_PlayCliJSON ex_env ex_play)
              (map (new_TaskCliJSON ex_env)
                 (play_tasks ex_env ex_play (play_compile ex_play))))
   \<and> map task_summary_name
       (map (new_TaskCliJSON ex_env) (play_tasks ex_env ex_play (play_compile ex_play))) =
       [Some ''t0'', Some ''debug'']
   \<and> fst (list_play ex_env ex_opts 0 ex_play) =
       [play_msg ex_env ex_opts 0 ex_play,
        ''    tasks:'' @ NL
        @ ''      t0'' @ TAB @ ''TAGS: [a, p, q]'' @ NL
        @ ''      debug'' @ TAB @ ''TAGS: [p, q]'' @ NL]
   \<and> snd (list_play ex_env ex_opts 0 ex_play) = new_PlayCliJSON ex_env ex_play"
proof -
  have j: "listtasksjson ex_opts_json"
    by (simp add: ex_opts_json_def)
  have a: "list_play ex_env ex_opts_json 0 ex_play =
       ([], set_tasks (new_PlayCliJSON ex_env ex_play)
              (map (new_TaskCliJSON ex_env)
                 (play_tasks ex_env ex_play (play_compile ex_play))))"
    using summaries_only_for_json
      [of ex_env ex_opts_json "{}" ex_block "{}" ex_play "[]" "[]" 0] j
    by (simp only: if_True)
  have b: "map task_summary_name
       (map (new_TaskCliJSON ex_env) (play_tasks ex_env ex_play (play_compile ex_play))) =
       [Some ''t0'', Some ''debug'']
   \<and> fst (list_play ex_env ex_opts 0 ex_play) =
       [play_msg ex_env ex_opts 0 ex_play,
        ''    tasks:'' @ NL
        @ ''      t0'' @ TAB @ ''TAGS: [a, p, q]'' @ NL
        @ ''      debug'' @ TAB @ ''TAGS: [p, q]'' @ NL]"
    by code_simp
  have n: "\<not> listtasksjson ex_opts"
    by (simp add: ex_opts_def)
  have c: "snd (list_play ex_env ex_opts 0 ex_play) = new_PlayCliJSON ex_env ex_play"
    using summaries_only_for_json
      [of ex_env ex_opts "{}" ex_block "{}" ex_play "[]" "[]" 0] n
    by simp
  from j a b c show ?thesis by blast
qed

subsection \<open>C9: an object without a projection becomes null\<close>

text \<open>
  Claim C9 as stated fails: an object that has no \<^verbatim>\<open>json_cli_repr\<close> is not dropped
  from the output. As the value of a key it leaves the key in the document, bound to
  \<^verbatim>\<open>null\<close>, and as an element of a list it leaves an element \<^verbatim>\<open>null\<close>, where
  the dictionary and the list without it are empty.
\<close>

theorem unknown_object_keeps_its_place:
  "encode (PDict [(''k'', PObj None)]) = Inr (JObj [(''k'', JNull)])
   \<and> encode (PDict []) = Inr (JObj [])
   \<and> encode (PList [PObj None]) = Inr (JArr [JNull])
   \<and> encode (PList []) = Inr (JArr [])"
  by (simp add: CLIEncoder_default_def JSONEncoder_default_def)

text \<open>
  Claim C9, amended. For an object that has no \<^verbatim>\<open>json_cli_repr\<close> and that the base
  encoder refuses, \<^verbatim>\<open>default\<close> returns \<^verbatim>\<open>None\<close> and raises nothing, and the
  encoder writes \<^verbatim>\<open>null\<close> at the place of the value, keeping its key or its position
  in a list: in a list or a dictionary it treats the object exactly as it treats
  \<^verbatim>\<open>None\<close>. No encoding ends with the \<^verbatim>\<open>TypeError\<close> of the base encoder, and
  a document is produced for every value in which the representations that
  \<^verbatim>\<open>json_cli_repr\<close> returns are dictionaries or \<^verbatim>\<open>None\<close>, however many
  objects without a projection it holds.
\<close>

theorem unknown_object_encoded_as_null:
  "CLIEncoder_default None = Inr PNone
   \<and> encode (PObj None) = Inr JNull
   \<and> encode_list (xs @ PObj None # ys) = encode_list (xs @ PNone # ys)
   \<and> encode_dict (kvs @ (k, PObj None) # kvs') = encode_dict (kvs @ (k, PNone) # kvs')
   \<and> encode v \<noteq> Inl TypeError
   \<and> (projections_ok v \<longrightarrow> (\<exists>j. encode v = Inr j))"
  by (simp add: encode_list_unknown encode_dict_unknown encode_no_TypeError(1)
      encode_projections_ok(1) CLIEncoder_default_def JSONEncoder_default_def)

theorem unknown_object_encoded_as_null_witness:
  "projections_ok
     (PDict [(''report'',
        PList [PInt 1, PObj None, PObj (Some (PDict [(''x'', PObj None), (''y'', PNone)]))])])
   \<and> (\<exists>j. encode
     (PDict [(''report'',
        PList [PInt 1, PObj None, PObj (Some (PDict [(''x'', PObj None), (''y'', PNone)]))])])
       = Inr j)
   \<and> encode
     (PDict [(''report'',
        PList [PInt 1, PObj None, PObj (Some (PDict [(''x'', PObj None), (''y'', PNone)]))])])
       = Inr (JObj [(''report'', JArr [JNum 1, JNull, JObj [(''x'', JNull)]])])
   \<and> encode_list ([PInt 1] @ PObj None # [PStr ''x'']) = Inr [JNum 1, JNull, JStr ''x'']"
proof -
  have h: "projections_ok
     (PDict [(''report'',
        PList [PInt 1, PObj None, PObj (Some (PDict [(''x'', PObj None), (''y'', PNone)]))])])"
    by simp
  from unknown_object_encoded_as_null
    [of "[PInt 1]" "[PStr ''x'']" "[]" "''k''" "[]"
        "PDict [(''report'',
           PList [PInt 1, PObj None,
                  PObj (Some (PDict [(''x'', PObj None), (''y'', PNone)]))])]"] h
  have e: "\<exists>j. encode
     (PDict [(''report'',
        PList [PInt 1, PObj None, PObj (Some (PDict [(''x'', PObj None), (''y'', PNone)]))])])
       = Inr j"
    by blast
  have v: "encode
     (PDict [(''report'',
        PList [PInt 1, PObj None, PObj (Some (PDict [(''x'', PObj None), (''y'', PNone)]))])])
       = Inr (JObj [(''report'', JArr [JNum 1, JNull, JObj [(''x'', JNull)]])])
   \<and> encode_list ([PInt 1] @ PObj None # [PStr ''x'']) = Inr [JNum 1, JNull, JStr ''x'']"
    by (simp add: CLIEncoder_default_def JSONEncoder_default_def)
  from h e v show ?thesis by blast
qed

subsection \<open>C10: \<^verbatim>\<open>remove_nulls\<close> prunes one level\<close>

text \<open>
  Claim C10. \<^verbatim>\<open>remove_nulls\<close> returns \<^verbatim>\<open>None\<close> for \<^verbatim>\<open>None\<close>. For a
  dictionary it returns a dictionary that holds exactly the key-value pairs of the input
  whose value is not \<^verbatim>\<open>None\<close>, in their order, each value as it was: a
  \<^verbatim>\<open>None\<close> deeper inside a retained value, in a nested dictionary or in a list,
  stays.
\<close>

theorem remove_nulls_top_level:
  "remove_nulls PNone = Inr PNone \<and>
   (\<exists>kvs'. remove_nulls (PDict kvs) = Inr (PDict kvs') \<and>
      subseq kvs' kvs \<and>
      (\<forall>k v. (k, v) \<in> set kvs' \<longleftrightarrow> (k, v) \<in> set kvs \<and> v \<noteq> PNone))"
  by auto

theorem remove_nulls_top_level_witness:
  "remove_nulls PNone = Inr PNone \<and>
   remove_nulls
     (PDict [(''a'', PNone),
             (''b'', PDict [(''c'', PNone)]),
             (''d'', PList [PNone, PDict [(''e'', PNone)]])]) =
   Inr (PDict [(''b'', PDict [(''c'', PNone)]),
               (''d'', PList [PNone, PDict [(''e'', PNone)]])])"
  using remove_nulls_top_level
    [of "[(''a'', PNone),
          (''b'', PDict [(''c'', PNone)]),
          (''d'', PList [PNone, PDict [(''e'', PNone)]])]"]
  by simp

end
